theory Spec2Isabelle
  imports Main "HOL-Library.Word"
begin

section \<open>Inventory service: data model\<close>

text \<open>
  The service of \<^verbatim>\<open>src/index.js\<close> keeps a collection of items in the variable
  \<^verbatim>\<open>db\<close>, writes it to the file \<^verbatim>\<open>inventory.json\<close> after each mutation and keeps
  uploaded photos as files of the directory \<^verbatim>\<open>photos\<close>.

  Typing of the JavaScript values: a form field, a query parameter and a route parameter
  is a string or absent (\<open>string option\<close>, \<open>None\<close> for \<^verbatim>\<open>undefined\<close> and \<^verbatim>\<open>null\<close>);
  \<^verbatim>\<open>req.body\<close> is an object of such fields or \<^verbatim>\<open>undefined\<close>, \<^verbatim>\<open>req.query\<close> is always an
  object; an item is the object literal of the register handler, with its five properties.
  Values produced by the libraries (JSON text, uuids, the extension of a file name) enter
  the handlers as arguments.
\<close>

type_synonym bytes = "8 word list"

datatype json = JNull | JStr string | JArr "json list" | JObj "(string \<times> json) list"

record item =
  item_id :: string
  name :: string
  description :: string
  photo :: "string option"
  storedFileName :: "string option"

text \<open>
  The value of the variable \<^verbatim>\<open>db\<close>: an object whose property \<^verbatim>\<open>items\<close> is an array of
  items, or is missing (\<open>None\<close>), as in the initial \<^verbatim>\<open>let db = {}\<close>.
\<close>

record db_t =
  items :: "item list option"

record state =
  db :: db_t
  db_file :: "string option"
  photos :: "string \<rightharpoonup> bytes"

record upload =
  originalname :: string
  content :: bytes

text \<open>
  The body that a request arrives with: none, fields in a format that \<^verbatim>\<open>express.json()\<close>
  or \<^verbatim>\<open>express.urlencoded()\<close> parses, or multipart form data with its text fields and
  the file of the field \<^verbatim>\<open>photo\<close>, if any.
\<close>

datatype payload =
  NoBody
| Form "string \<rightharpoonup> string"
| Multipart "string \<rightharpoonup> string" "upload option"

record request =
  req_method :: string
  path :: "string list"
  req_payload :: payload
  query :: "string \<rightharpoonup> string"

datatype body = Json json | Text string | File bytes | Static string

record response =
  status :: nat
  headers :: "(string \<times> string) list"
  body :: body

text \<open>
  A handler either sends a response or throws. Express hands an exception thrown by a
  handler to its error handling, which the source does not configure; the model stops at
  the exception and keeps the state as the handler left it.
\<close>

datatype exn = TypeError

datatype reply = Sent response | Threw exn

section \<open>JavaScript helpers\<close>

text \<open>Truthiness of a string that may be absent: \<^verbatim>\<open>undefined\<close>, \<^verbatim>\<open>null\<close> and \<^verbatim>\<open>''\<close> are falsy.\<close>

fun truthy :: "string option \<Rightarrow> bool" where
  "truthy None = False"
| "truthy (Some s) = (s \<noteq> [])"

text \<open>\<^verbatim>\<open>v || d\<close> for strings.\<close>

fun or_else :: "string option \<Rightarrow> string \<Rightarrow> string" where
  "or_else None d = d"
| "or_else (Some s) d = (if s = [] then d else s)"

text \<open>\<^verbatim>\<open>xs.join(sep)\<close>.\<close>

fun join :: "string \<Rightarrow> string list \<Rightarrow> string" where
  "join sep [] = []"
| "join sep [x] = x"
| "join sep (x # y # ys) = x @ sep @ join sep (y # ys)"

text \<open>\<^verbatim>\<open>xs.findIndex(P)\<close>, with \<open>None\<close> for \<^verbatim>\<open>-1\<close>.\<close>

fun findIndex :: "('a \<Rightarrow> bool) \<Rightarrow> 'a list \<Rightarrow> nat option" where
  "findIndex P [] = None"
| "findIndex P (x # xs) = (if P x then Some 0 else map_option Suc (findIndex P xs))"

text \<open>\<^verbatim>\<open>xs.splice(idx, 1)\<close>.\<close>

definition splice1 :: "nat \<Rightarrow> 'a list \<Rightarrow> 'a list" where
  "splice1 idx xs = take idx xs @ drop (Suc idx) xs"

text \<open>An object as the list of its own properties, in insertion order.\<close>

definition item_obj :: "item \<Rightarrow> (string \<times> json) list" where
  "item_obj i =
     [(''id'', JStr (item_id i)),
      (''name'', JStr (name i)),
      (''description'', JStr (description i)),
      (''photo'', (case photo i of None \<Rightarrow> JNull | Some p \<Rightarrow> JStr p)),
      (''storedFileName'', (case storedFileName i of None \<Rightarrow> JNull | Some f \<Rightarrow> JStr f))]"

text \<open>The rest pattern \<^verbatim>\<open>{ k, ...rest } = obj\<close>: every property but \<open>k\<close>.\<close>

definition rest_without :: "string \<Rightarrow> (string \<times> json) list \<Rightarrow> (string \<times> json) list" where
  "rest_without k obj = filter (\<lambda>kv. fst kv \<noteq> k) obj"

definition publicData :: "item \<Rightarrow> json" where
  "publicData i = JObj (rest_without ''storedFileName'' (item_obj i))"

definition photo_url :: "string \<Rightarrow> string" where
  "photo_url i = ''/inventory/'' @ i @ ''/photo''"

section \<open>Request bodies\<close>

text \<open>The text fields and the uploaded file that a request carries.\<close>

definition body_fields :: "request \<Rightarrow> (string \<rightharpoonup> string)" where
  "body_fields req =
     (case req_payload req of
        NoBody \<Rightarrow> Map.empty
      | Form b \<Rightarrow> b
      | Multipart b f \<Rightarrow> b)"

definition file_part :: "request \<Rightarrow> upload option" where
  "file_part req =
     (case req_payload req of
        NoBody \<Rightarrow> None
      | Form b \<Rightarrow> None
      | Multipart b f \<Rightarrow> f)"

text \<open>
  \<^verbatim>\<open>req.body\<close> after the two body parsers of lines 71 and 72: the fields of a body that
  they parse; \<^verbatim>\<open>undefined\<close> (\<open>None\<close>) for a request without a body and for multipart
  form data, which they leave alone (the parsers of Express 5 set no default body). This
  is what the handlers of the routes without \<^verbatim>\<open>upload.single\<close> read.
\<close>

definition parsed_body :: "request \<Rightarrow> (string \<rightharpoonup> string) option" where
  "parsed_body req =
     (case req_payload req of
        NoBody \<Rightarrow> None
      | Form b \<Rightarrow> Some b
      | Multipart b f \<Rightarrow> None)"

text \<open>
  \<^verbatim>\<open>req.body\<close> after \<^verbatim>\<open>upload.single('photo')\<close>, which sets it to the text fields of
  multipart form data and passes every other request on as it is.
\<close>

definition multer_body :: "request \<Rightarrow> (string \<rightharpoonup> string) option" where
  "multer_body req =
     (case req_payload req of
        NoBody \<Rightarrow> None
      | Form b \<Rightarrow> Some b
      | Multipart b f \<Rightarrow> Some b)"

section \<open>Responses\<close>

definition send :: "nat \<Rightarrow> string \<Rightarrow> response" where
  "send c t = \<lparr>status = c, headers = [], body = Text t\<rparr>"

definition send_json :: "nat \<Rightarrow> json \<Rightarrow> response" where
  "send_json c j = \<lparr>status = c, headers = [], body = Json j\<rparr>"

section \<open>Storage\<close>

text \<open>
  Startup (lines 44 to 55). \<open>parse\<close> is \<^verbatim>\<open>JSON.parse\<close>, \<open>None\<close> when it throws;
  \<open>stringify\<close> is \<^verbatim>\<open>JSON.stringify(db, null, 2)\<close>. The argument is the content of
  the file, \<open>None\<close> when the file does not exist; the result is \<^verbatim>\<open>db\<close> and the
  content of the file afterwards.
\<close>

definition init_db ::
  "(string \<Rightarrow> db_t option) \<Rightarrow> (db_t \<Rightarrow> string) \<Rightarrow> string option \<Rightarrow> db_t \<times> string option" where
  "init_db parse stringify file =
     (case file of
        Some text \<Rightarrow>
          (case parse (if text = [] then ''{}'' else text) of
             Some d \<Rightarrow> (d, file)
           | None \<Rightarrow> (\<lparr>items = Some []\<rparr>, file))
      | None \<Rightarrow> (\<lparr>items = Some []\<rparr>, Some (stringify \<lparr>items = Some []\<rparr>)))"

definition saveDb :: "(db_t \<Rightarrow> string) \<Rightarrow> state \<Rightarrow> state" where
  "saveDb stringify s = s\<lparr>db_file := Some (stringify (db s))\<rparr>"

text \<open>
  \<^verbatim>\<open>findItem\<close>: the first item with that id. The JavaScript returns a reference to the
  object inside \<^verbatim>\<open>db.items\<close>, which the handlers mutate in place; the model returns its
  position. Reading \<^verbatim>\<open>db.items.find\<close> throws when \<^verbatim>\<open>db.items\<close> is undefined.
\<close>

definition findItem :: "db_t \<Rightarrow> string \<Rightarrow> exn + nat option" where
  "findItem d i =
     (case items d of
        None \<Rightarrow> Inl TypeError
      | Some xs \<Rightarrow> Inr (findIndex (\<lambda>x. item_id x = i) xs))"

definition fs_unlink_if_exists :: "string \<Rightarrow> (string \<rightharpoonup> bytes) \<Rightarrow> (string \<rightharpoonup> bytes)" where
  "fs_unlink_if_exists f dir = (if dir f \<noteq> None then dir(f := None) else dir)"

text \<open>
  The multer disk storage (lines 75 to 83): \<open>extname\<close> is \<^verbatim>\<open>path.extname\<close>, \<open>u\<close> the
  value of \<^verbatim>\<open>uuidv4()\<close>. \<^verbatim>\<open>upload.single('photo')\<close> writes the uploaded file, if any,
  and gives the handler \<^verbatim>\<open>req.file.filename\<close>.
\<close>

definition filename :: "(string \<Rightarrow> string) \<Rightarrow> string \<Rightarrow> upload \<Rightarrow> string" where
  "filename extname u f =
     (let ext = (if extname (originalname f) = [] then ''.jpg'' else extname (originalname f));
          fname = u @ ext
      in fname)"

definition upload_single ::
  "(string \<Rightarrow> string) \<Rightarrow> string \<Rightarrow> request \<Rightarrow> state \<Rightarrow> string option \<times> state" where
  "upload_single extname u req s =
     (case file_part req of
        None \<Rightarrow> (None, s)
      | Some f \<Rightarrow>
          (Some (filename extname u f),
           s\<lparr>photos := (photos s)(filename extname u f \<mapsto> content f)\<rparr>))"

section \<open>Handlers\<close>

definition allowMethods :: "string list \<Rightarrow> request \<Rightarrow> response option" where
  "allowMethods methods req =
     (if req_method req \<notin> set methods
      then Some \<lparr>status = 405, headers = [(''Allow'', join '', '' methods)],
                 body = Text ''Method Not Allowed''\<rparr>
      else None)"

text \<open>
  POST /register, after \<^verbatim>\<open>upload.single\<close>: \<open>bdy\<close> is \<^verbatim>\<open>req.body\<close> and \<open>file\<close> is
  \<^verbatim>\<open>req.file.filename\<close>. Reading \<^verbatim>\<open>req.body.inventory_name\<close> throws when \<^verbatim>\<open>req.body\<close> is
  undefined.
\<close>

definition register_handler ::
  "(db_t \<Rightarrow> string) \<Rightarrow> string \<Rightarrow> (string \<rightharpoonup> string) option \<Rightarrow> string option \<Rightarrow> state
     \<Rightarrow> reply \<times> state" where
  "register_handler stringify uid bdy file s =
     (case bdy of
        None \<Rightarrow> (Threw TypeError, s)
      | Some b \<Rightarrow>
          (let nm = b ''inventory_name'';
               desc = or_else (b ''description'') ''''
           in if \<not> truthy nm
              then (Sent (send_json 400
                      (JObj [(''error'', JStr ''inventory_name is required'')])), s)
              else
                (let it = \<lparr>item_id = uid, name = the nm, description = desc,
                           photo = (if truthy file then Some (photo_url uid) else None),
                           storedFileName = file\<rparr>
                 in case items (db s) of
                      None \<Rightarrow> (Threw TypeError, s)
                    | Some xs \<Rightarrow>
                        (Sent (send_json 201 (publicData it)),
                         saveDb stringify
                           (s\<lparr>db := (db s)\<lparr>items := Some (xs @ [it])\<rparr>\<rparr>)))))"

definition inventory_handler :: "state \<Rightarrow> reply \<times> state" where
  "inventory_handler s =
     (case items (db s) of
        None \<Rightarrow> (Threw TypeError, s)
      | Some xs \<Rightarrow> (Sent (send_json 200 (JArr (map publicData xs))), s))"

definition inventory_id_handler :: "string \<Rightarrow> state \<Rightarrow> reply \<times> state" where
  "inventory_id_handler i s =
     (case findItem (db s) i of
        Inl e \<Rightarrow> (Threw e, s)
      | Inr None \<Rightarrow> (Sent (send 404 ''Not found''), s)
      | Inr (Some k) \<Rightarrow> (Sent (send_json 200 (publicData (the (items (db s)) ! k))), s))"

text \<open>
  PUT /inventory/:id. The item is looked up first; reading \<^verbatim>\<open>req.body.name\<close> throws when
  \<^verbatim>\<open>req.body\<close> (\<open>bdy\<close>) is undefined.
\<close>

definition update_handler ::
  "(db_t \<Rightarrow> string) \<Rightarrow> string \<Rightarrow> (string \<rightharpoonup> string) option \<Rightarrow> state \<Rightarrow> reply \<times> state" where
  "update_handler stringify i bdy s =
     (case findItem (db s) i of
        Inl e \<Rightarrow> (Threw e, s)
      | Inr None \<Rightarrow> (Sent (send 404 ''Not found''), s)
      | Inr (Some k) \<Rightarrow>
          (case bdy of
             None \<Rightarrow> (Threw TypeError, s)
           | Some b \<Rightarrow>
               (let xs = the (items (db s));
                    it = xs ! k;
                    it1 = (if truthy (b ''name'') then it\<lparr>name := the (b ''name'')\<rparr> else it);
                    it2 = (if truthy (b ''description'')
                           then it1\<lparr>description := the (b ''description'')\<rparr> else it1)
                in (Sent (send_json 200 (publicData it2)),
                    saveDb stringify (s\<lparr>db := (db s)\<lparr>items := Some (xs[k := it2])\<rparr>\<rparr>)))))"

definition photo_handler :: "string \<Rightarrow> state \<Rightarrow> reply \<times> state" where
  "photo_handler i s =
     (case findItem (db s) i of
        Inl e \<Rightarrow> (Threw e, s)
      | Inr None \<Rightarrow> (Sent (send 404 ''Not found''), s)
      | Inr (Some k) \<Rightarrow>
          (let it = the (items (db s)) ! k
           in if \<not> truthy (storedFileName it) then (Sent (send 404 ''Not found''), s)
              else (case photos s (the (storedFileName it)) of
                      None \<Rightarrow> (Sent (send 404 ''Not found''), s)
                    | Some bs \<Rightarrow>
                        (Sent \<lparr>status = 200, headers = [(''Content-Type'', ''image/jpeg'')],
                               body = File bs\<rparr>, s))))"

text \<open>PUT /inventory/:id/photo, after \<^verbatim>\<open>upload.single\<close>.\<close>

definition update_photo_handler ::
  "(db_t \<Rightarrow> string) \<Rightarrow> string \<Rightarrow> string option \<Rightarrow> state \<Rightarrow> reply \<times> state" where
  "update_photo_handler stringify i file s =
     (case findItem (db s) i of
        Inl e \<Rightarrow> (Threw e, s)
      | Inr None \<Rightarrow> (Sent (send 404 ''Not found''), s)
      | Inr (Some k) \<Rightarrow>
          (case file of
             None \<Rightarrow> (Sent (send 400 ''No file uploaded''), s)
           | Some fname \<Rightarrow>
               (let xs = the (items (db s));
                    it = xs ! k;
                    dir = (if truthy (storedFileName it)
                           then fs_unlink_if_exists (the (storedFileName it)) (photos s)
                           else photos s);
                    it1 = it\<lparr>storedFileName := Some fname\<rparr>;
                    it2 = it1\<lparr>photo := Some (photo_url (item_id it1))\<rparr>
                in (Sent (send_json 200 (publicData it2)),
                    saveDb stringify
                      (s\<lparr>photos := dir, db := (db s)\<lparr>items := Some (xs[k := it2])\<rparr>\<rparr>)))))"

definition delete_handler :: "(db_t \<Rightarrow> string) \<Rightarrow> string \<Rightarrow> state \<Rightarrow> reply \<times> state" where
  "delete_handler stringify i s =
     (case items (db s) of
        None \<Rightarrow> (Threw TypeError, s)
      | Some xs \<Rightarrow>
          (case findIndex (\<lambda>x. item_id x = i) xs of
             None \<Rightarrow> (Sent (send 404 ''Not found''), s)
           | Some idx \<Rightarrow>
               (let it = xs ! idx;
                    dir = (if truthy (storedFileName it)
                           then fs_unlink_if_exists (the (storedFileName it)) (photos s)
                           else photos s)
                in (Sent (send_json 200 (JObj [(''message'', JStr ''Deleted'')])),
                    saveDb stringify
                      (s\<lparr>photos := dir, db := (db s)\<lparr>items := Some (splice1 idx xs)\<rparr>\<rparr>)))))"

text \<open>
  POST /search: reading \<^verbatim>\<open>req.body.id\<close> throws when \<^verbatim>\<open>req.body\<close> (\<open>bdy\<close>) is undefined.
\<close>

definition search_post_handler :: "(string \<rightharpoonup> string) option \<Rightarrow> state \<Rightarrow> reply \<times> state" where
  "search_post_handler bdy s =
     (case bdy of
        None \<Rightarrow> (Threw TypeError, s)
      | Some b \<Rightarrow>
          (let i = b ''id'';
               hp = b ''has_photo''
           in if \<not> truthy i then (Sent (send 400 ''id required''), s)
              else (case findItem (db s) (the i) of
                      Inl e \<Rightarrow> (Threw e, s)
                    | Inr None \<Rightarrow> (Sent (send 404 ''Not found''), s)
                    | Inr (Some k) \<Rightarrow>
                        (let it = the (items (db s)) ! k;
                             d = (if truthy hp \<and> truthy (photo it)
                                  then description it @ '' Photo: '' @ the (photo it)
                                  else description it)
                         in (Sent (send_json 200
                               (JObj [(''id'', JStr (item_id it)), (''name'', JStr (name it)),
                                      (''description'', JStr d)])), s)))))"

text \<open>GET /search reads \<^verbatim>\<open>req.query\<close>, which is always an object.\<close>

definition search_get_handler :: "request \<Rightarrow> state \<Rightarrow> reply \<times> state" where
  "search_get_handler req s =
     (let i = query req ''id'';
          hp = query req ''includePhoto''
      in if \<not> truthy i then (Sent (send 400 ''id required''), s)
         else (case findItem (db s) (the i) of
                 Inl e \<Rightarrow> (Threw e, s)
               | Inr None \<Rightarrow> (Sent (send 404 ''Not found''), s)
               | Inr (Some k) \<Rightarrow>
                   (let it = the (items (db s)) ! k;
                        d = (if truthy hp \<and> truthy (photo it)
                             then description it @ '' Photo: '' @ the (photo it)
                             else description it)
                    in (Sent (send_json 200
                          (JObj [(''id'', JStr (item_id it)), (''name'', JStr (name it)),
                                 (''description'', JStr d)])), s))))"

section \<open>Routing\<close>

text \<open>
  A route registered with \<^verbatim>\<open>app.get\<close>, \<^verbatim>\<open>app.post\<close>, \<^verbatim>\<open>app.put\<close> or \<^verbatim>\<open>app.delete\<close> is
  entered only by a request of that verb; a GET route is entered by a HEAD request too,
  whose \<^verbatim>\<open>req.method\<close> (the field \<open>req_method\<close>) stays \<^verbatim>\<open>HEAD\<close>. The path is the list of its segments.
\<close>

definition handles :: "string \<Rightarrow> request \<Rightarrow> bool" where
  "handles verb req = (req_method req = verb \<or> (verb = ''GET'' \<and> req_method req = ''HEAD''))"

fun match_id :: "string list \<Rightarrow> string option" where
  "match_id [a, i] = (if a = ''inventory'' \<and> i \<noteq> [] then Some i else None)"
| "match_id p = None"

fun match_id_photo :: "string list \<Rightarrow> string option" where
  "match_id_photo [a, i, b] =
     (if a = ''inventory'' \<and> i \<noteq> [] \<and> b = ''photo'' then Some i else None)"
| "match_id_photo p = None"

text \<open>A route whose first middleware is \<^verbatim>\<open>allowMethods(methods)\<close>.\<close>

definition guarded :: "string list \<Rightarrow> request \<Rightarrow> state \<Rightarrow> reply \<times> state \<Rightarrow> reply \<times> state" where
  "guarded methods req s k =
     (case allowMethods methods req of Some r \<Rightarrow> (Sent r, s) | None \<Rightarrow> k)"

text \<open>
  The application: the routes in the order of their registration, then the fallback.
  \<open>fid\<close> is the uuid drawn for the name of an uploaded file, \<open>uid\<close> the uuid drawn for
  the id of a new item.
\<close>

definition app ::
  "(db_t \<Rightarrow> string) \<Rightarrow> (string \<Rightarrow> string) \<Rightarrow> string \<Rightarrow> string \<Rightarrow> request \<Rightarrow> state
     \<Rightarrow> reply \<times> state" where
  "app stringify extname fid uid req s =
     (if handles ''GET'' req \<and> path req = [''RegisterForm.html'']
        then (Sent \<lparr>status = 200, headers = [], body = Static ''RegisterForm.html''\<rparr>, s)
      else if handles ''GET'' req \<and> path req = [''SearchForm.html'']
        then (Sent \<lparr>status = 200, headers = [], body = Static ''SearchForm.html''\<rparr>, s)
      else if handles ''POST'' req \<and> path req = [''register'']
        then guarded [''POST''] req s
               (case upload_single extname fid req s of
                  (file, s1) \<Rightarrow> register_handler stringify uid (multer_body req) file s1)
      else if handles ''GET'' req \<and> path req = [''inventory'']
        then guarded [''GET''] req s (inventory_handler s)
      else if handles ''GET'' req \<and> match_id (path req) \<noteq> None
        then guarded [''GET''] req s (inventory_id_handler (the (match_id (path req))) s)
      else if handles ''PUT'' req \<and> match_id (path req) \<noteq> None
        then guarded [''PUT''] req s
               (update_handler stringify (the (match_id (path req))) (parsed_body req) s)
      else if handles ''GET'' req \<and> match_id_photo (path req) \<noteq> None
        then guarded [''GET''] req s (photo_handler (the (match_id_photo (path req))) s)
      else if handles ''PUT'' req \<and> match_id_photo (path req) \<noteq> None
        then guarded [''PUT''] req s
               (case upload_single extname fid req s of
                  (file, s1) \<Rightarrow>
                    update_photo_handler stringify (the (match_id_photo (path req))) file s1)
      else if handles ''DELETE'' req \<and> match_id (path req) \<noteq> None
        then guarded [''DELETE''] req s
               (delete_handler stringify (the (match_id (path req))) s)
      else if handles ''POST'' req \<and> path req = [''search'']
        then guarded [''POST''] req s (search_post_handler (parsed_body req) s)
      else if handles ''GET'' req \<and> path req = [''search'']
        then guarded [''GET''] req s (search_get_handler req s)
      else (Sent (send 404 ''Not found''), s))"

section \<open>Startup and runs\<close>

text \<open>
  The state when the server starts to listen: \<^verbatim>\<open>db\<close> and the JSON file as the startup
  code leaves them, and the photo directory as it was found.
\<close>

definition startup ::
  "(string \<Rightarrow> db_t option) \<Rightarrow> (db_t \<Rightarrow> string) \<Rightarrow> string option \<Rightarrow> (string \<rightharpoonup> bytes)
     \<Rightarrow> state" where
  "startup parse stringify file dir =
     \<lparr>db = fst (init_db parse stringify file),
      db_file = snd (init_db parse stringify file),
      photos = dir\<rparr>"

text \<open>
  A request together with the two uuids that serving it may draw, and the state after a
  sequence of them, served one after the other.
\<close>

record event =
  ev_req :: request
  ev_fid :: string
  ev_uid :: string

fun run :: "(db_t \<Rightarrow> string) \<Rightarrow> (string \<Rightarrow> string) \<Rightarrow> event list \<Rightarrow> state \<Rightarrow> state" where
  "run stringify extname [] s = s"
| "run stringify extname (e # es) s =
     run stringify extname es (snd (app stringify extname (ev_fid e) (ev_uid e) (ev_req e) s))"

text \<open>The name under which the file uploaded with an event, if any, is stored.\<close>

definition upload_name :: "(string \<Rightarrow> string) \<Rightarrow> event \<Rightarrow> string option" where
  "upload_name extname e = map_option (filename extname (ev_fid e)) (file_part (ev_req e))"

text \<open>A file of the photo directory is referenced when some item names it.\<close>

definition referenced :: "string \<Rightarrow> state \<Rightarrow> bool" where
  "referenced f s =
     (case items (db s) of
        None \<Rightarrow> False
      | Some xs \<Rightarrow> list_ex (\<lambda>x. storedFileName x = Some f) xs)"

definition orphan :: "string \<Rightarrow> state \<Rightarrow> bool" where
  "orphan f s \<longleftrightarrow> photos s f \<noteq> None \<and> \<not> referenced f s"

section \<open>Observing responses\<close>

text \<open>The names of the properties of a JSON object, and the value of one of them.\<close>

fun obj_keys :: "json \<Rightarrow> string list option" where
  "obj_keys (JObj kvs) = Some (map fst kvs)"
| "obj_keys j = None"


definition public_item :: "json \<Rightarrow> bool" where
  "public_item j \<longleftrightarrow>
     obj_keys j = Some [''id'', ''name'', ''description'', ''photo'']"

section \<open>Sample data\<close>

definition doc0 :: "db_t \<Rightarrow> string" where
  "doc0 d = ''doc''"

definition ext0 :: "string \<Rightarrow> string" where
  "ext0 n = []"

definition parse0 :: "string \<Rightarrow> db_t option" where
  "parse0 t = (if t = ''{}'' then Some \<lparr>items = None\<rparr> else None)"

definition mk_req ::
  "string \<Rightarrow> string list \<Rightarrow> (string \<rightharpoonup> string) \<Rightarrow> (string \<rightharpoonup> string)
     \<Rightarrow> upload option \<Rightarrow> request" where
  "mk_req m p b q f =
     \<lparr>req_method = m, path = p,
      req_payload = (case f of None \<Rightarrow> Form b | Some g \<Rightarrow> Multipart b f),
      query = q\<rparr>"

definition bare_req :: "string \<Rightarrow> string list \<Rightarrow> request" where
  "bare_req m p = \<lparr>req_method = m, path = p, req_payload = NoBody, query = Map.empty\<rparr>"

definition item1 :: item where
  "item1 = \<lparr>item_id = ''a1'', name = ''bolt'', description = ''m4'',
            photo = Some ''/inventory/a1/photo'', storedFileName = Some ''p1.jpg''\<rparr>"

definition pic1 :: upload where
  "pic1 = \<lparr>originalname = ''new.png'', content = [7, 8]\<rparr>"

definition state0 :: state where
  "state0 = \<lparr>db = \<lparr>items = Some []\<rparr>, db_file = None, photos = Map.empty\<rparr>"

definition state1 :: state where
  "state1 = \<lparr>db = \<lparr>items = Some [item1]\<rparr>, db_file = Some ''doc'',
         photos = [''p1.jpg'' \<mapsto> [1, 2, 3]]\<rparr>"

definition ev_delete :: event where
  "ev_delete = \<lparr>ev_req = mk_req ''DELETE'' [''inventory'', ''a1''] Map.empty Map.empty None,
                ev_fid = ''f2'', ev_uid = ''u2''\<rparr>"

section \<open>Properties of the helpers\<close>


lemma findIndex_Some:
  "findIndex P xs = Some k \<Longrightarrow> k < length xs \<and> P (xs ! k) \<and> (\<forall>j < k. \<not> P (xs ! j))"
proof (induction xs arbitrary: k)
  case Nil
  then show ?case by simp
next
  case (Cons x xs)
  show ?case
  proof (cases "P x")
    case True
    with Cons.prems show ?thesis by simp
  next
    case False
    with Cons.prems obtain k' where k': "findIndex P xs = Some k'" "k = Suc k'"
      by auto
    from Cons.IH [OF k'(1)] False k'(2) show ?thesis
      by (auto simp: nth_Cons split: nat.splits)
  qed
qed

lemma mk_req_sel:
  "req_method (mk_req m p b q f) = m"
  "path (mk_req m p b q f) = p"
  "query (mk_req m p b q f) = q"
  "body_fields (mk_req m p b q f) = b"
  "file_part (mk_req m p b q f) = f"
  "multer_body (mk_req m p b q f) = Some b"
  "parsed_body (mk_req m p b q None) = Some b"
  by (simp_all add: mk_req_def body_fields_def file_part_def multer_body_def parsed_body_def
      split: option.splits)

lemma bare_req_sel:
  "req_method (bare_req m p) = m"
  "path (bare_req m p) = p"
  "query (bare_req m p) = Map.empty"
  "file_part (bare_req m p) = None"
  "multer_body (bare_req m p) = None"
  "parsed_body (bare_req m p) = None"
  by (simp_all add: bare_req_def file_part_def multer_body_def parsed_body_def)

lemma file_part_multer_body:
  "file_part req = Some g \<Longrightarrow> multer_body req = Some (body_fields req)"
  by (simp add: file_part_def multer_body_def body_fields_def split: payload.splits)

lemma parsed_body_multer_body: "parsed_body req = Some b \<Longrightarrow> multer_body req = Some b"
  by (simp add: parsed_body_def multer_body_def split: payload.splits)

section \<open>Routing lemmas\<close>

lemma app_register:
  "req_method req = ''POST'' \<Longrightarrow> path req = [''register''] \<Longrightarrow>
   app st ex fid uid req s =
     (case upload_single ex fid req s of
        (file, s1) \<Rightarrow> register_handler st uid (multer_body req) file s1)"
  by (simp add: app_def handles_def guarded_def allowMethods_def)

lemma app_inventory:
  "req_method req = ''GET'' \<Longrightarrow> path req = [''inventory''] \<Longrightarrow>
   app st ex fid uid req s = inventory_handler s"
  by (simp add: app_def handles_def guarded_def allowMethods_def)

lemma app_inventory_id:
  "req_method req = ''GET'' \<Longrightarrow> match_id (path req) = Some i \<Longrightarrow>
   app st ex fid uid req s = inventory_id_handler i s"
  by (auto simp add: app_def handles_def guarded_def allowMethods_def)

lemma app_update:
  "req_method req = ''PUT'' \<Longrightarrow> match_id (path req) = Some i \<Longrightarrow>
   app st ex fid uid req s = update_handler st i (parsed_body req) s"
  by (auto simp add: app_def handles_def guarded_def allowMethods_def)

lemma match_id_photo_excl: "match_id_photo p = Some i \<Longrightarrow> match_id p = None"
  by (cases p rule: match_id_photo.cases) auto


lemma match_id_photo_Some:
  "match_id_photo p = Some i \<longleftrightarrow> (p = [''inventory'', i, ''photo''] \<and> i \<noteq> [])"
  by (cases p rule: match_id_photo.cases) auto

lemma app_photo:
  "req_method req = ''GET'' \<Longrightarrow> match_id_photo (path req) = Some i \<Longrightarrow>
   app st ex fid uid req s = photo_handler i s"
  by (auto simp add: app_def handles_def guarded_def allowMethods_def match_id_photo_Some)

lemma app_update_photo:
  "req_method req = ''PUT'' \<Longrightarrow> match_id_photo (path req) = Some i \<Longrightarrow>
   app st ex fid uid req s =
     (case upload_single ex fid req s of (file, s1) \<Rightarrow> update_photo_handler st i file s1)"
  by (auto simp add: app_def handles_def guarded_def allowMethods_def match_id_photo_Some)


lemma app_search_post:
  "req_method req = ''POST'' \<Longrightarrow> path req = [''search''] \<Longrightarrow>
   app st ex fid uid req s = search_post_handler (parsed_body req) s"
  by (simp add: app_def handles_def guarded_def allowMethods_def)

lemma app_search_get:
  "req_method req = ''GET'' \<Longrightarrow> path req = [''search''] \<Longrightarrow>
   app st ex fid uid req s = search_get_handler req s"
  by (simp add: app_def handles_def guarded_def allowMethods_def)


section \<open>Sample runs\<close>

lemma run_register_ok:
  "app doc0 ext0 ''f1'' ''u1''
     (mk_req ''POST'' [''register''] [''inventory_name'' \<mapsto> ''nut''] Map.empty None) state1
   = (Sent (send_json 201 (publicData \<lparr>item_id = ''u1'', name = ''nut'', description = [],
         photo = None, storedFileName = None\<rparr>)),
      saveDb doc0 (state1\<lparr>db := (db state1)\<lparr>items := Some ([item1] @
        [\<lparr>item_id = ''u1'', name = ''nut'', description = [],
         photo = None, storedFileName = None\<rparr>])\<rparr>\<rparr>))"
  by (simp add: Let_def app_register mk_req_sel upload_single_def register_handler_def state1_def)

lemma run_inventory:
  "app doc0 ext0 ''f1'' ''u1'' (mk_req ''GET'' [''inventory''] Map.empty Map.empty None) state1
   = (Sent (send_json 200 (JArr [publicData item1])), state1)"
  by (simp add: app_inventory mk_req_sel inventory_handler_def state1_def)

lemma run_inventory_id:
  "app doc0 ext0 ''f1'' ''u1'' (mk_req ''GET'' [''inventory'', ''a1''] Map.empty Map.empty None) state1
   = (Sent (send_json 200 (publicData item1)), state1)"
  by (simp add: app_inventory_id mk_req_sel inventory_id_handler_def findItem_def state1_def
      item1_def)

lemma run_update:
  "app doc0 ext0 ''f1'' ''u1''
     (mk_req ''PUT'' [''inventory'', ''a1''] [''name'' \<mapsto> ''nut''] Map.empty None) state1
   = (Sent (send_json 200 (publicData (item1\<lparr>name := ''nut''\<rparr>))),
      saveDb doc0 (state1\<lparr>db := (db state1)\<lparr>items := Some [item1\<lparr>name := ''nut''\<rparr>]\<rparr>\<rparr>))"
  by (simp add: Let_def app_update mk_req_sel update_handler_def findItem_def state1_def item1_def)

lemma run_update_photo:
  "app doc0 ext0 ''f1'' ''u1''
     (mk_req ''PUT'' [''inventory'', ''a1'', ''photo''] Map.empty Map.empty (Some pic1)) state1
   = (Sent (send_json 200 (publicData (item1\<lparr>storedFileName := Some ''f1.jpg''\<rparr>))),
      saveDb doc0 (state1\<lparr>photos := [''f1.jpg'' \<mapsto> [7, 8]],
         db := (db state1)\<lparr>items := Some [item1\<lparr>storedFileName := Some ''f1.jpg''\<rparr>]\<rparr>\<rparr>))"
  by (simp add: Let_def app_update_photo mk_req_sel update_photo_handler_def findItem_def state1_def
      item1_def upload_single_def filename_def ext0_def pic1_def fs_unlink_if_exists_def
      photo_url_def fun_upd_twist)

section \<open>Public projection\<close>

lemma public_item_publicData: "public_item (publicData i)"
  by (simp add: public_item_def publicData_def rest_without_def item_obj_def)

lemma register_handler_public:
  "register_handler st uid bdy file s = (Sent r, s') \<Longrightarrow> status r = 201 \<Longrightarrow>
   \<exists>j. body r = Json j \<and> public_item j"
  by (auto simp: register_handler_def Let_def send_json_def public_item_publicData
      split: if_splits option.splits)

lemma inventory_handler_public:
  "inventory_handler s = (Sent r, s') \<Longrightarrow> status r = 200 \<Longrightarrow>
   \<exists>js. body r = Json (JArr js) \<and> (\<forall>j \<in> set js. public_item j)"
  by (auto simp: inventory_handler_def send_json_def public_item_publicData
      split: option.splits)

lemma inventory_id_handler_public:
  "inventory_id_handler i s = (Sent r, s') \<Longrightarrow> status r = 200 \<Longrightarrow>
   \<exists>j. body r = Json j \<and> public_item j"
  by (auto simp: inventory_id_handler_def send_json_def send_def public_item_publicData
      split: sum.splits option.splits)

lemma update_handler_public:
  "update_handler st i bdy s = (Sent r, s') \<Longrightarrow> status r = 200 \<Longrightarrow>
   \<exists>j. body r = Json j \<and> public_item j"
  by (auto simp: update_handler_def Let_def send_json_def send_def public_item_publicData
      split: sum.splits option.splits)

lemma update_photo_handler_public:
  "update_photo_handler st i file s = (Sent r, s') \<Longrightarrow> status r = 200 \<Longrightarrow>
   \<exists>j. body r = Json j \<and> public_item j"
  by (auto simp: update_photo_handler_def Let_def send_json_def send_def public_item_publicData
      split: sum.splits option.splits)

text \<open>
  Claim C1. Wherever an item is sent to the client (the 201 of POST /register, the 200 of
  GET /inventory, of GET /inventory/:id, of PUT /inventory/:id and of
  PUT /inventory/:id/photo), the JSON object of the item has exactly the properties
  id, name, description and photo, in this order, so that it has no property
  storedFileName; GET /inventory sends an array of such objects.
\<close>

theorem public_projection:
  assumes "app st ex fid uid req s = (Sent r, s')"
  shows "(req_method req = ''POST'' \<and> path req = [''register''] \<and> status r = 201
            \<longrightarrow> (\<exists>j. body r = Json j \<and> public_item j))
       \<and> (req_method req = ''GET'' \<and> path req = [''inventory''] \<and> status r = 200
            \<longrightarrow> (\<exists>js. body r = Json (JArr js) \<and> (\<forall>j \<in> set js. public_item j)))
       \<and> (req_method req = ''GET'' \<and> path req = [''inventory'', i] \<and> i \<noteq> [] \<and> status r = 200
            \<longrightarrow> (\<exists>j. body r = Json j \<and> public_item j))
       \<and> (req_method req = ''PUT'' \<and> path req = [''inventory'', i] \<and> i \<noteq> [] \<and> status r = 200
            \<longrightarrow> (\<exists>j. body r = Json j \<and> public_item j))
       \<and> (req_method req = ''PUT'' \<and> path req = [''inventory'', i, ''photo''] \<and> i \<noteq> []
            \<and> status r = 200
            \<longrightarrow> (\<exists>j. body r = Json j \<and> public_item j))"
proof (intro conjI impI)
  assume h: "req_method req = ''POST'' \<and> path req = [''register''] \<and> status r = 201"
  with assms obtain fl s1 where "register_handler st uid (multer_body req) fl s1 = (Sent r, s')"
    by (auto simp: app_register split: prod.splits)
  with h show "\<exists>j. body r = Json j \<and> public_item j"
    by (auto dest: register_handler_public)
next
  assume h: "req_method req = ''GET'' \<and> path req = [''inventory''] \<and> status r = 200"
  with assms have "inventory_handler s = (Sent r, s')"
    by (simp add: app_inventory)
  with h show "\<exists>js. body r = Json (JArr js) \<and> (\<forall>j \<in> set js. public_item j)"
    by (auto dest: inventory_handler_public)
next
  assume h: "req_method req = ''GET'' \<and> path req = [''inventory'', i] \<and> i \<noteq> [] \<and> status r = 200"
  then have "match_id (path req) = Some i" by simp
  with assms h have "inventory_id_handler i s = (Sent r, s')"
    by (simp add: app_inventory_id)
  with h show "\<exists>j. body r = Json j \<and> public_item j"
    by (auto dest: inventory_id_handler_public)
next
  assume h: "req_method req = ''PUT'' \<and> path req = [''inventory'', i] \<and> i \<noteq> [] \<and> status r = 200"
  then have "match_id (path req) = Some i" by simp
  with assms h have "update_handler st i (parsed_body req) s = (Sent r, s')"
    by (simp add: app_update)
  with h show "\<exists>j. body r = Json j \<and> public_item j"
    by (auto dest: update_handler_public)
next
  assume h: "req_method req = ''PUT'' \<and> path req = [''inventory'', i, ''photo''] \<and> i \<noteq> []
            \<and> status r = 200"
  then have "match_id_photo (path req) = Some i" by simp
  with assms h obtain fl s1 where "update_photo_handler st i fl s1 = (Sent r, s')"
    by (auto simp: app_update_photo split: prod.splits)
  with h show "\<exists>j. body r = Json j \<and> public_item j"
    by (auto dest: update_photo_handler_public)
qed


theorem public_projection_witness:
  "(\<exists>j. body (send_json 201 (publicData \<lparr>item_id = ''u1'', name = ''nut'', description = [],
         photo = None, storedFileName = None\<rparr>)) = Json j \<and> public_item j)
   \<and> (\<exists>js. body (send_json 200 (JArr [publicData item1])) = Json (JArr js)
         \<and> (\<forall>j \<in> set js. public_item j))
   \<and> (\<exists>j. body (send_json 200 (publicData item1)) = Json j \<and> public_item j)
   \<and> (\<exists>j. body (send_json 200 (publicData (item1\<lparr>name := ''nut''\<rparr>))) = Json j
         \<and> public_item j)
   \<and> (\<exists>j. body (send_json 200 (publicData (item1\<lparr>storedFileName := Some ''f1.jpg''\<rparr>)))
           = Json j \<and> public_item j)"
  using public_projection [OF run_register_ok, of "''a1''"]
    public_projection [OF run_inventory, of "''a1''"]
    public_projection [OF run_inventory_id, of "''a1''"]
    public_projection [OF run_update, of "''a1''"]
    public_projection [OF run_update_photo, of "''a1''"]
  by (simp add: mk_req_sel send_json_def)

section \<open>Registration\<close>

lemma upload_single_db:
  "upload_single ex fid req s = (fl, s1) \<Longrightarrow> db s1 = db s \<and> db_file s1 = db_file s"
  by (auto simp: upload_single_def split: option.splits)

lemma upload_single_file:
  "upload_single ex fid req s = (fl, s1) \<Longrightarrow> fl = map_option (filename ex fid) (file_part req)"
  by (auto simp: upload_single_def split: option.splits)



lemma register_handler_invalid:
  "\<not> truthy (b ''inventory_name'') \<Longrightarrow>
   register_handler st uid (Some b) fl s =
     (Sent (send_json 400 (JObj [(''error'', JStr ''inventory_name is required'')])), s)"
  by (simp add: register_handler_def)

lemma register_handler_valid:
  "truthy (b ''inventory_name'') \<Longrightarrow> items (db s) = Some xs \<Longrightarrow>
   register_handler st uid (Some b) fl s =
     (Sent (send_json 201 (publicData
        \<lparr>item_id = uid, name = the (b ''inventory_name''),
         description = or_else (b ''description'') '''',
         photo = (if truthy fl then Some (photo_url uid) else None),
         storedFileName = fl\<rparr>)),
      saveDb st (s\<lparr>db := (db s)\<lparr>items := Some (xs @
        [\<lparr>item_id = uid, name = the (b ''inventory_name''),
          description = or_else (b ''description'') '''',
          photo = (if truthy fl then Some (photo_url uid) else None),
          storedFileName = fl\<rparr>])\<rparr>\<rparr>))"
  by (simp add: register_handler_def Let_def)



text \<open>
  The id of a new item is the value of \<^verbatim>\<open>uuidv4()\<close> as it is: lines 117 to 128 compare
  it with no id of the collection, so a draw that equals the id of an existing item is
  stored and sent like any other.
\<close>

lemma register_stores_drawn_id:
  assumes "req_method req = ''POST''" and "path req = [''register'']"
    and "multer_body req = Some b" and "truthy (b ''inventory_name'')"
    and "items (db s) = Some xs"
  shows "\<exists>it. items (db (snd (app st ex fid uid req s))) = Some (xs @ [it]) \<and> item_id it = uid"
proof -
  obtain fl s1 where up: "upload_single ex fid req s = (fl, s1)"
    by (cases "upload_single ex fid req s")
  from upload_single_db [OF up] assms(5) have xs1: "items (db s1) = Some xs"
    by simp
  from assms(1,2,3) up register_handler_valid [where b = b, OF assms(4) xs1, of st uid fl]
  show ?thesis
    by (simp add: app_register saveDb_def)
qed




section \<open>Update of name and description\<close>

lemma find_findIndex: "find P xs = map_option (\<lambda>k. xs ! k) (findIndex P xs)"
  by (induction xs) (auto simp: option.map_comp comp_def)

lemma findIndex_find_Some:
  "find P xs = Some it \<Longrightarrow> \<exists>k. findIndex P xs = Some k \<and> k < length xs \<and> xs ! k = it"
  by (auto simp: find_findIndex dest: findIndex_Some)

lemma findIndex_find_None: "find P xs = None \<Longrightarrow> findIndex P xs = None"
  by (simp add: find_findIndex)

lemma update_handler_unknown:
  "items (db s) = Some xs \<Longrightarrow> findIndex (\<lambda>x. item_id x = i) xs = None \<Longrightarrow>
   update_handler st i bdy s = (Sent (send 404 ''Not found''), s)"
  by (simp add: update_handler_def findItem_def)

lemma update_handler_known:
  "items (db s) = Some xs \<Longrightarrow> findIndex (\<lambda>x. item_id x = i) xs = Some k \<Longrightarrow>
   update_handler st i (Some b) s =
     (Sent (send_json 200 (publicData
        ((xs ! k)\<lparr>name := (if truthy (b ''name'')
                            then the (b ''name'') else name (xs ! k)),
                  description := (if truthy (b ''description'')
                            then the (b ''description'')
                            else description (xs ! k))\<rparr>))),
      saveDb st (s\<lparr>db := (db s)\<lparr>items := Some (xs[k :=
        (xs ! k)\<lparr>name := (if truthy (b ''name'')
                            then the (b ''name'') else name (xs ! k)),
                  description := (if truthy (b ''description'')
                            then the (b ''description'')
                            else description (xs ! k))\<rparr>])\<rparr>\<rparr>))"
  by (simp add: update_handler_def findItem_def Let_def)

lemma update_handler_no_body:
  "items (db s) = Some xs \<Longrightarrow> findIndex (\<lambda>x. item_id x = i) xs = Some k \<Longrightarrow>
   update_handler st i None s = (Threw TypeError, s)"
  by (simp add: update_handler_def findItem_def)

text \<open>
  With a body that the parsers turn into fields, PUT /inventory/:id does what claim C3
  says: the first item with the id gets each non-empty field and keeps what an empty or
  absent field would replace, the items are saved and the item is sent with status 200;
  an id that no item has yields 404.
\<close>

lemma update_with_body_overwrites_nonempty_only:
  assumes "req_method req = ''PUT''" and "path req = [''inventory'', i]" and "i \<noteq> []"
    and "items (db s) = Some xs" and "parsed_body req = Some b"
  shows "(find (\<lambda>x. item_id x = i) xs = None \<longrightarrow>
            app st ex fid uid req s = (Sent (send 404 ''Not found''), s))
       \<and> (\<forall>it. find (\<lambda>x. item_id x = i) xs = Some it \<longrightarrow>
            (\<exists>k it' s'. findIndex (\<lambda>x. item_id x = i) xs = Some k \<and> xs ! k = it
               \<and> app st ex fid uid req s = (Sent (send_json 200 (publicData it')), s')
               \<and> name it' = (if truthy (b ''name'')
                              then the (b ''name'') else name it)
               \<and> description it' = (if truthy (b ''description'')
                              then the (b ''description'') else description it)
               \<and> item_id it' = item_id it \<and> photo it' = photo it
               \<and> storedFileName it' = storedFileName it
               \<and> items (db s') = Some (xs[k := it'])
               \<and> db_file s' = Some (st (db s'))
               \<and> photos s' = photos s
               \<and> (\<not> truthy (b ''name'')
                    \<and> \<not> truthy (b ''description'')
                    \<longrightarrow> it' = it \<and> db s' = db s)))"
proof (intro conjI impI allI)
  assume "find (\<lambda>x. item_id x = i) xs = None"
  then have "findIndex (\<lambda>x. item_id x = i) xs = None"
    by (rule findIndex_find_None)
  with assms show "app st ex fid uid req s = (Sent (send 404 ''Not found''), s)"
    by (simp add: app_update update_handler_unknown)
next
  fix it
  assume "find (\<lambda>x. item_id x = i) xs = Some it"
  then obtain k where k: "findIndex (\<lambda>x. item_id x = i) xs = Some k" "k < length xs"
    "xs ! k = it"
    by (auto dest: findIndex_find_Some)
  define it' where "it' = it\<lparr>name := (if truthy (b ''name'')
                            then the (b ''name'') else name it),
                  description := (if truthy (b ''description'')
                            then the (b ''description'')
                            else description it)\<rparr>"
  define s' where "s' = saveDb st (s\<lparr>db := (db s)\<lparr>items := Some (xs[k := it'])\<rparr>\<rparr>)"
  have run: "app st ex fid uid req s = (Sent (send_json 200 (publicData it')), s')"
    using assms k update_handler_known [OF assms(4) k(1), of st b]
    by (simp add: app_update it'_def s'_def)
  have noop: "\<not> truthy (b ''name'')
                    \<and> \<not> truthy (b ''description'')
                    \<longrightarrow> it' = it \<and> db s' = db s"
    using k assms(4) by (auto simp: it'_def s'_def saveDb_def list_update_same_conv)
  show "\<exists>k it' s'. findIndex (\<lambda>x. item_id x = i) xs = Some k \<and> xs ! k = it
               \<and> app st ex fid uid req s = (Sent (send_json 200 (publicData it')), s')
               \<and> name it' = (if truthy (b ''name'')
                              then the (b ''name'') else name it)
               \<and> description it' = (if truthy (b ''description'')
                              then the (b ''description'') else description it)
               \<and> item_id it' = item_id it \<and> photo it' = photo it
               \<and> storedFileName it' = storedFileName it
               \<and> items (db s') = Some (xs[k := it'])
               \<and> db_file s' = Some (st (db s'))
               \<and> photos s' = photos s
               \<and> (\<not> truthy (b ''name'')
                    \<and> \<not> truthy (b ''description'')
                    \<longrightarrow> it' = it \<and> db s' = db s)"
    apply (rule exI [of _ k])
    apply (rule exI [of _ it'])
    apply (rule exI [of _ s'])
    using k run noop
    apply (simp add: it'_def s'_def saveDb_def)
    done
qed

text \<open>
  Claim C3, evaluated on the code. A PUT /inventory/:id that reaches the handler with
  \<^verbatim>\<open>req.body\<close> undefined (a request without a body, or with multipart form data, which
  this route does not parse) supplies neither name nor description. For an id of the
  collection the claim promises status 200 and the item unchanged; the handler throws a
  TypeError at \<^verbatim>\<open>req.body.name\<close> instead: the state is as before, and there is neither
  a 200 nor a save.
\<close>

theorem update_without_body_throws:
  assumes "req_method req = ''PUT''" and "path req = [''inventory'', i]" and "i \<noteq> []"
    and "parsed_body req = None"
    and "items (db s) = Some xs" and "find (\<lambda>x. item_id x = i) xs = Some it"
  shows "app st ex fid uid req s = (Threw TypeError, s)"
proof -
  from assms(6) obtain k where k: "findIndex (\<lambda>x. item_id x = i) xs = Some k"
    by (auto dest: findIndex_find_Some)
  from assms(1,2,3,4) have "app st ex fid uid req s = update_handler st i None s"
    by (simp add: app_update)
  with update_handler_no_body [OF assms(5) k, of st] show ?thesis
    by simp
qed

theorem update_without_body_throws_witness:
  "app doc0 ext0 ''f1'' ''u1'' (bare_req ''PUT'' [''inventory'', ''a1'']) state1
     = (Threw TypeError, state1)"
proof -
  have h: "req_method (bare_req ''PUT'' [''inventory'', ''a1'']) = ''PUT''"
    "path (bare_req ''PUT'' [''inventory'', ''a1'']) = [''inventory'', ''a1'']"
    "''a1'' \<noteq> []"
    "parsed_body (bare_req ''PUT'' [''inventory'', ''a1'']) = None"
    "items (db state1) = Some [item1]"
    "find (\<lambda>x. item_id x = ''a1'') [item1] = Some item1"
    by (simp_all add: bare_req_sel state1_def item1_def)
  from update_without_body_throws [OF h, of doc0 ext0 "''f1''" "''u1''"]
  show ?thesis .
qed

section \<open>Reading a photo\<close>

lemma truthy_iff: "truthy v \<longleftrightarrow> (\<exists>f. v = Some f \<and> f \<noteq> [])"
  by (cases v) auto

lemma photo_handler_cases:
  "items (db s) = Some xs \<Longrightarrow>
   photo_handler i s =
     (case find (\<lambda>x. item_id x = i) xs of
        None \<Rightarrow> (Sent (send 404 ''Not found''), s)
      | Some it \<Rightarrow>
          if \<not> truthy (storedFileName it) then (Sent (send 404 ''Not found''), s)
          else (case photos s (the (storedFileName it)) of
                  None \<Rightarrow> (Sent (send 404 ''Not found''), s)
                | Some bs \<Rightarrow>
                    (Sent \<lparr>status = 200, headers = [(''Content-Type'', ''image/jpeg'')],
                           body = File bs\<rparr>, s)))"
  by (simp add: photo_handler_def findItem_def find_findIndex Let_def split: option.splits)

text \<open>
  Claim C4. GET /inventory/:id/photo on a database that has its items leaves the state
  alone and answers 404 exactly when no item has the id, or the item has no (or an empty)
  storedFileName, or the photo directory has no file of that name; the three cases send
  the same response. In every other case it answers 200 with the bytes of the file and
  Content-Type image/jpeg, whatever the name of the file.
\<close>

theorem photo_not_found_collapsed:
  assumes "req_method req = ''GET''" and "path req = [''inventory'', i, ''photo'']"
    and "i \<noteq> []" and "items (db s) = Some xs"
  shows "\<exists>r. app st ex fid uid req s = (Sent r, s)
          \<and> (status r = 404 \<longleftrightarrow>
                find (\<lambda>x. item_id x = i) xs = None
                \<or> (\<exists>it. find (\<lambda>x. item_id x = i) xs = Some it
                       \<and> \<not> truthy (storedFileName it))
                \<or> (\<exists>it f. find (\<lambda>x. item_id x = i) xs = Some it
                       \<and> storedFileName it = Some f \<and> photos s f = None))
          \<and> (status r = 404 \<longrightarrow> r = send 404 ''Not found'')
          \<and> (status r \<noteq> 404 \<longrightarrow>
                (\<exists>it f bs. find (\<lambda>x. item_id x = i) xs = Some it
                   \<and> storedFileName it = Some f \<and> photos s f = Some bs
                   \<and> r = \<lparr>status = 200, headers = [(''Content-Type'', ''image/jpeg'')],
                          body = File bs\<rparr>))"
proof -
  from assms have "app st ex fid uid req s = photo_handler i s"
    by (simp add: app_photo)
  with assms(4) show ?thesis
    by (auto simp: photo_handler_cases send_def truthy_iff split: option.splits)
qed

theorem photo_not_found_collapsed_witness:
  "\<exists>r. app doc0 ext0 ''f1'' ''u1''
         (mk_req ''GET'' [''inventory'', ''a1'', ''photo''] Map.empty Map.empty None) state1
         = (Sent r, state1)
      \<and> r = \<lparr>status = 200, headers = [(''Content-Type'', ''image/jpeg'')],
              body = File [1, 2, 3]\<rparr>"
proof -
  let ?a = "mk_req ''GET'' [''inventory'', ''a1'', ''photo''] Map.empty Map.empty None"
  have a: "req_method ?a = ''GET''" "path ?a = [''inventory'', ''a1'', ''photo'']"
    "''a1'' \<noteq> []" "items (db state1) = Some [item1]"
    by (simp_all add: mk_req_sel state1_def)
  have b: "find (\<lambda>x. item_id x = ''a1'') [item1] = Some item1"
    "storedFileName item1 = Some ''p1.jpg''" "photos state1 ''p1.jpg'' = Some [1, 2, 3]"
    by (simp_all add: item1_def state1_def)
  from photo_not_found_collapsed [OF a, of doc0 ext0 "''f1''" "''u1''"]
  obtain r where r: "app doc0 ext0 ''f1'' ''u1'' ?a state1 = (Sent r, state1)"
    "status r = 404 \<longleftrightarrow>
                find (\<lambda>x. item_id x = ''a1'') [item1] = None
                \<or> (\<exists>it. find (\<lambda>x. item_id x = ''a1'') [item1] = Some it
                       \<and> \<not> truthy (storedFileName it))
                \<or> (\<exists>it f. find (\<lambda>x. item_id x = ''a1'') [item1] = Some it
                       \<and> storedFileName it = Some f \<and> photos state1 f = None)"
    "status r \<noteq> 404 \<longrightarrow>
                (\<exists>it f bs. find (\<lambda>x. item_id x = ''a1'') [item1] = Some it
                   \<and> storedFileName it = Some f \<and> photos state1 f = Some bs
                   \<and> r = \<lparr>status = 200, headers = [(''Content-Type'', ''image/jpeg'')],
                          body = File bs\<rparr>)"
    by blast
  from r(2) b have "status r \<noteq> 404"
    by simp
  with r(3) b have "r = \<lparr>status = 200, headers = [(''Content-Type'', ''image/jpeg'')],
              body = File [1, 2, 3]\<rparr>"
    by simp
  with r(1) show ?thesis by blast
qed

section \<open>Replacing a photo\<close>







lemma fs_unlink_if_exists_eq: "fs_unlink_if_exists f dir = dir(f := None)"
  by (auto simp: fs_unlink_if_exists_def)



section \<open>Deleting an item\<close>



lemma delete_handler_known:
  "items (db s) = Some xs \<Longrightarrow> findIndex (\<lambda>x. item_id x = i) xs = Some k \<Longrightarrow>
   delete_handler st i s =
     (Sent (send_json 200 (JObj [(''message'', JStr ''Deleted'')])),
      saveDb st (s\<lparr>photos := (if truthy (storedFileName (xs ! k))
                               then (photos s)(the (storedFileName (xs ! k)) := None)
                               else photos s),
                    db := (db s)\<lparr>items := Some (splice1 k xs)\<rparr>\<rparr>))"
  by (simp add: delete_handler_def Let_def fs_unlink_if_exists_eq)




section \<open>Search\<close>

lemma search_handlers_agree:
  "b ''id'' = query g ''id'' \<Longrightarrow>
   b ''has_photo'' = query g ''includePhoto'' \<Longrightarrow>
   search_post_handler (Some b) s = search_get_handler g s"
  by (simp add: search_post_handler_def search_get_handler_def)

lemma search_post_handler_cases:
  "search_post_handler (Some b) s =
     (if \<not> truthy (b ''id'') then (Sent (send 400 ''id required''), s)
      else case items (db s) of
             None \<Rightarrow> (Threw TypeError, s)
           | Some xs \<Rightarrow>
               (case find (\<lambda>x. item_id x = the (b ''id'')) xs of
                  None \<Rightarrow> (Sent (send 404 ''Not found''), s)
                | Some it \<Rightarrow>
                    (Sent (send_json 200
                       (JObj [(''id'', JStr (item_id it)), (''name'', JStr (name it)),
                              (''description'', JStr
                                 (if truthy (b ''has_photo'') \<and> truthy (photo it)
                                  then description it @ '' Photo: '' @ the (photo it)
                                  else description it))])), s)))"
  by (simp add: search_post_handler_def findItem_def find_findIndex Let_def
      split: option.splits)

lemma search_get_handler_cases:
  "search_get_handler g s =
     (if \<not> truthy (query g ''id'') then (Sent (send 400 ''id required''), s)
      else case items (db s) of
             None \<Rightarrow> (Threw TypeError, s)
           | Some xs \<Rightarrow>
               (case find (\<lambda>x. item_id x = the (query g ''id'')) xs of
                  None \<Rightarrow> (Sent (send 404 ''Not found''), s)
                | Some it \<Rightarrow>
                    (Sent (send_json 200
                       (JObj [(''id'', JStr (item_id it)), (''name'', JStr (name it)),
                              (''description'', JStr
                                 (if truthy (query g ''includePhoto'') \<and> truthy (photo it)
                                  then description it @ '' Photo: '' @ the (photo it)
                                  else description it))])), s)))"
  by (simp add: search_get_handler_def findItem_def find_findIndex Let_def
      split: option.splits)

lemma search_post_handler_no_body: "search_post_handler None s = (Threw TypeError, s)"
  by (simp add: search_post_handler_def)

text \<open>
  When POST /search has a body that the parsers turn into fields, it and GET /search
  agree on equal values of the id and of the flag, with the statuses that claim C7 gives.
\<close>

lemma search_with_body_post_get_equivalent:
  assumes "req_method p = ''POST''" and "path p = [''search'']"
    and "req_method g = ''GET''" and "path g = [''search'']"
    and "parsed_body p = Some b"
    and "b ''id'' = query g ''id''"
    and "b ''has_photo'' = query g ''includePhoto''"
  shows "app st ex fid uid p s = app st ex fid' uid' g s
       \<and> (\<not> truthy (query g ''id'') \<longrightarrow>
            app st ex fid' uid' g s = (Sent (send 400 ''id required''), s))
       \<and> (\<forall>xs. truthy (query g ''id'') \<and> items (db s) = Some xs \<longrightarrow>
            (find (\<lambda>x. item_id x = the (query g ''id'')) xs = None \<longrightarrow>
               app st ex fid' uid' g s = (Sent (send 404 ''Not found''), s))
          \<and> (\<forall>it. find (\<lambda>x. item_id x = the (query g ''id'')) xs = Some it \<longrightarrow>
               app st ex fid' uid' g s =
                 (Sent (send_json 200
                    (JObj [(''id'', JStr (item_id it)), (''name'', JStr (name it)),
                           (''description'', JStr
                              (if truthy (query g ''includePhoto'') \<and> truthy (photo it)
                               then description it @ '' Photo: '' @ the (photo it)
                               else description it))])), s)))"
proof -
  have pp: "app st ex fid uid p s = search_post_handler (Some b) s"
    using assms(1,2,5) by (simp add: app_search_post)
  have gg: "app st ex fid' uid' g s = search_get_handler g s"
    using assms(3,4) by (rule app_search_get)
  have eq: "search_post_handler (Some b) s = search_get_handler g s"
    using assms(6,7) by (rule search_handlers_agree)
  from pp gg eq have 1: "app st ex fid uid p s = app st ex fid' uid' g s"
    by simp
  have 2: "app st ex fid' uid' g s =
     (if \<not> truthy (query g ''id'') then (Sent (send 400 ''id required''), s)
      else case items (db s) of
             None \<Rightarrow> (Threw TypeError, s)
           | Some xs \<Rightarrow>
               (case find (\<lambda>x. item_id x = the (query g ''id'')) xs of
                  None \<Rightarrow> (Sent (send 404 ''Not found''), s)
                | Some it \<Rightarrow>
                    (Sent (send_json 200
                       (JObj [(''id'', JStr (item_id it)), (''name'', JStr (name it)),
                              (''description'', JStr
                                 (if truthy (query g ''includePhoto'') \<and> truthy (photo it)
                                  then description it @ '' Photo: '' @ the (photo it)
                                  else description it))])), s)))"
    using gg by (simp only: search_get_handler_cases)
  show ?thesis
    using 1 by (simp add: 2)
qed

text \<open>
  Claim C7, evaluated on the code. With the id missing on both sides the claim promises
  the same 400 from POST /search and from GET /search. GET /search reads \<^verbatim>\<open>req.query\<close>
  and answers 400; a POST /search that reaches the handler with \<^verbatim>\<open>req.body\<close> undefined
  (a request without a body) throws a TypeError at \<^verbatim>\<open>req.body.id\<close>, so the two results
  differ.
\<close>

theorem search_post_without_body_differs:
  assumes "req_method p = ''POST''" and "path p = [''search'']" and "parsed_body p = None"
    and "req_method g = ''GET''" and "path g = [''search'']"
    and "\<not> truthy (query g ''id'')"
  shows "app st ex fid uid p s = (Threw TypeError, s)
       \<and> app st ex fid' uid' g s = (Sent (send 400 ''id required''), s)
       \<and> app st ex fid uid p s \<noteq> app st ex fid' uid' g s"
proof -
  from assms(1,2,3) have p: "app st ex fid uid p s = (Threw TypeError, s)"
    by (simp add: app_search_post search_post_handler_no_body)
  from assms(4,5,6) have g: "app st ex fid' uid' g s = (Sent (send 400 ''id required''), s)"
    by (simp add: app_search_get search_get_handler_cases)
  from p g show ?thesis
    by simp
qed

theorem search_post_without_body_differs_witness:
  "app doc0 ext0 ''f1'' ''u1'' (bare_req ''POST'' [''search'']) state1
     = (Threw TypeError, state1)
   \<and> app doc0 ext0 ''f2'' ''u2'' (bare_req ''GET'' [''search'']) state1
     = (Sent (send 400 ''id required''), state1)
   \<and> app doc0 ext0 ''f1'' ''u1'' (bare_req ''POST'' [''search'']) state1
     \<noteq> app doc0 ext0 ''f2'' ''u2'' (bare_req ''GET'' [''search'']) state1"
proof -
  have h: "req_method (bare_req ''POST'' [''search'']) = ''POST''"
    "path (bare_req ''POST'' [''search'']) = [''search'']"
    "parsed_body (bare_req ''POST'' [''search'']) = None"
    "req_method (bare_req ''GET'' [''search'']) = ''GET''"
    "path (bare_req ''GET'' [''search'']) = [''search'']"
    "\<not> truthy (query (bare_req ''GET'' [''search'']) ''id'')"
    by (simp_all add: bare_req_sel)
  from search_post_without_body_differs [OF h, of doc0 ext0 "''f1''" "''u1''" state1
      "''f2''" "''u2''"]
  show ?thesis .
qed

section \<open>Methods and unknown paths\<close>

lemma guarded_pass:
  "req_method req \<in> set methods \<Longrightarrow> guarded methods req s k = k"
  by (simp add: guarded_def allowMethods_def)

lemma register_handler_status:
  "register_handler st uid bdy fl s = (Sent r, s') \<Longrightarrow> status r \<in> {201, 400}"
  by (auto simp: register_handler_def Let_def send_json_def split: if_splits option.splits)

lemma inventory_handler_status:
  "inventory_handler s = (Sent r, s') \<Longrightarrow> status r = 200"
  by (auto simp: inventory_handler_def send_json_def split: option.splits)

lemma inventory_id_handler_status:
  "inventory_id_handler i s = (Sent r, s') \<Longrightarrow> status r \<in> {200, 404}"
  by (auto simp: inventory_id_handler_def send_json_def send_def split: sum.splits option.splits)

lemma update_handler_status:
  "update_handler st i bdy s = (Sent r, s') \<Longrightarrow> status r \<in> {200, 404}"
  by (auto simp: update_handler_def Let_def send_json_def send_def
      split: sum.splits option.splits)

lemma photo_handler_status:
  "photo_handler i s = (Sent r, s') \<Longrightarrow> status r \<in> {200, 404}"
  by (auto simp: photo_handler_def Let_def send_def split: sum.splits option.splits if_splits)

lemma update_photo_handler_status:
  "update_photo_handler st i fl s = (Sent r, s') \<Longrightarrow> status r \<in> {200, 400, 404}"
  by (auto simp: update_photo_handler_def Let_def send_json_def send_def
      split: sum.splits option.splits)

lemma delete_handler_status:
  "delete_handler st i s = (Sent r, s') \<Longrightarrow> status r \<in> {200, 404}"
  by (auto simp: delete_handler_def Let_def send_json_def send_def split: option.splits)

lemma search_post_handler_status:
  "search_post_handler bdy s = (Sent r, s') \<Longrightarrow> status r \<in> {200, 400, 404}"
  by (auto simp: search_post_handler_def Let_def send_json_def send_def
      split: sum.splits option.splits if_splits)

lemma search_get_handler_status:
  "search_get_handler req s = (Sent r, s') \<Longrightarrow> status r \<in> {200, 400, 404}"
  by (auto simp: search_get_handler_def Let_def send_json_def send_def
      split: sum.splits option.splits if_splits)

lemma handles_not_head:
  "req_method req \<noteq> ''HEAD'' \<Longrightarrow> handles verb req \<longleftrightarrow> req_method req = verb"
  by (auto simp: handles_def)

lemma wrong_method_not_found:
  assumes "req_method req \<notin> {''GET'', ''HEAD'', ''POST'', ''PUT'', ''DELETE''}"
  shows "app st ex fid uid req s = (Sent (send 404 ''Not found''), s)"
  using assms by (simp add: app_def handles_def)

lemma register_other_method:
  assumes "path req = [''register'']" and "req_method req \<noteq> ''POST''"
  shows "app st ex fid uid req s = (Sent (send 404 ''Not found''), s)"
  using assms by (simp add: app_def handles_def)

lemma search_other_method:
  assumes "path req = [''search'']" and "req_method req \<notin> {''POST'', ''GET'', ''HEAD''}"
  shows "app st ex fid uid req s = (Sent (send 404 ''Not found''), s)"
  using assms by (simp add: app_def handles_def)

lemma no_405_unless_head:
  assumes nh: "req_method req \<noteq> ''HEAD''" and run: "app st ex fid uid req s = (Sent r, s')"
  shows "status r \<in> {200, 201, 400, 404}"
proof -
  consider (get) "req_method req = ''GET''" | (post) "req_method req = ''POST''"
    | (put) "req_method req = ''PUT''" | (del) "req_method req = ''DELETE''"
    | (other) "req_method req \<notin> {''GET'', ''HEAD'', ''POST'', ''PUT'', ''DELETE''}"
    using nh by auto
  then show ?thesis
  proof cases
    case get
    with run show ?thesis
      by (auto simp: app_def handles_def guarded_def allowMethods_def send_def
          split: if_splits
          dest: inventory_handler_status inventory_id_handler_status photo_handler_status
            search_get_handler_status)
  next
    case post
    with run show ?thesis
      by (auto simp: app_def handles_def guarded_def allowMethods_def send_def
          split: if_splits prod.splits
          dest: register_handler_status search_post_handler_status)
  next
    case put
    with run show ?thesis
      by (auto simp: app_def handles_def guarded_def allowMethods_def send_def
          split: if_splits prod.splits
          dest: update_handler_status update_photo_handler_status)
  next
    case del
    with run show ?thesis
      by (auto simp: app_def handles_def guarded_def allowMethods_def send_def
          split: if_splits
          dest: delete_handler_status)
  next
    case other
    from wrong_method_not_found [OF other, of st ex fid uid s] run show ?thesis
      by (auto simp: send_def)
  qed
qed

text \<open>
  Claim C8, evaluated on the code. A request whose method is not the one of the route is
  never given to the route, so \<^verbatim>\<open>allowMethods\<close> does not see it and the fallback answers
  404 without an Allow header: GET /register, POST /inventory, PATCH /inventory/:id and
  DELETE /search all get 404. The one request that \<^verbatim>\<open>allowMethods\<close> rejects is a HEAD
  request on a GET route, which gets 405 with Allow: GET. The lemmas before the theorem
  give the same for every request: no method but HEAD is ever answered 405.
\<close>

theorem disallowed_method_answered_404:
  "app doc0 ext0 ''f1'' ''u1'' (mk_req ''GET'' [''register''] Map.empty Map.empty None) state1
     = (Sent (send 404 ''Not found''), state1)
   \<and> app doc0 ext0 ''f1'' ''u1'' (mk_req ''POST'' [''inventory''] Map.empty Map.empty None) state1
     = (Sent (send 404 ''Not found''), state1)
   \<and> app doc0 ext0 ''f1'' ''u1''
       (mk_req ''PATCH'' [''inventory'', ''a1''] Map.empty Map.empty None) state1
     = (Sent (send 404 ''Not found''), state1)
   \<and> app doc0 ext0 ''f1'' ''u1'' (mk_req ''DELETE'' [''search''] Map.empty Map.empty None) state1
     = (Sent (send 404 ''Not found''), state1)
   \<and> app doc0 ext0 ''f1'' ''u1'' (mk_req ''HEAD'' [''inventory''] Map.empty Map.empty None) state1
     = (Sent \<lparr>status = 405, headers = [(''Allow'', ''GET'')],
              body = Text ''Method Not Allowed''\<rparr>, state1)"
  by (simp add: app_def handles_def mk_req_sel guarded_def allowMethods_def)

section \<open>Startup\<close>

lemma init_db_absent:
  "init_db parse st None = (\<lparr>items = Some []\<rparr>, Some (st \<lparr>items = Some []\<rparr>))"
  by (simp add: init_db_def)

lemma init_db_unparseable:
  "text \<noteq> [] \<Longrightarrow> parse text = None \<Longrightarrow>
   init_db parse st (Some text) = (\<lparr>items = Some []\<rparr>, Some text)"
  by (simp add: init_db_def)

lemma init_db_parsed:
  "text \<noteq> [] \<Longrightarrow> parse text = Some d \<Longrightarrow> init_db parse st (Some text) = (d, Some text)"
  by (simp add: init_db_def)

lemma init_db_empty_file:
  "init_db parse st (Some []) =
     (case parse ''{}'' of Some d \<Rightarrow> (d, Some []) | None \<Rightarrow> (\<lparr>items = Some []\<rparr>, Some []))"
  by (simp add: init_db_def)

text \<open>
  Claim C9, evaluated on the code. When the JSON file exists and is empty, the startup
  code parses the text \<^verbatim>\<open>{}\<close> in its place; \<^verbatim>\<open>JSON.parse\<close> gives the empty object for
  it, so \<^verbatim>\<open>db\<close> has no items (it is not the empty collection that the two other paths,
  of an absent and of an unparseable file, set up), and GET /inventory on the state after
  startup throws a TypeError instead of listing an empty collection.
\<close>

theorem empty_file_gives_db_without_items:
  assumes "parse ''{}'' = Some \<lparr>items = None\<rparr>"
    and "req_method req = ''GET''" and "path req = [''inventory'']"
  shows "db (startup parse st (Some []) dir) = \<lparr>items = None\<rparr>
       \<and> app st ex fid uid req (startup parse st (Some []) dir)
           = (Threw TypeError, startup parse st (Some []) dir)"
proof -
  from assms(1) have d: "db (startup parse st (Some []) dir) = \<lparr>items = None\<rparr>"
    by (simp add: startup_def init_db_empty_file)
  from assms(2,3) have "app st ex fid uid req (startup parse st (Some []) dir)
      = inventory_handler (startup parse st (Some []) dir)"
    by (rule app_inventory)
  with d show ?thesis
    by (simp add: inventory_handler_def)
qed

theorem empty_file_gives_db_without_items_witness:
  "db (startup parse0 doc0 (Some []) Map.empty) = \<lparr>items = None\<rparr>
   \<and> app doc0 ext0 ''f1'' ''u1'' (mk_req ''GET'' [''inventory''] Map.empty Map.empty None)
        (startup parse0 doc0 (Some []) Map.empty)
       = (Threw TypeError, startup parse0 doc0 (Some []) Map.empty)"
proof -
  have a: "parse0 ''{}'' = Some \<lparr>items = None\<rparr>"
    by (simp add: parse0_def)
  have b: "req_method (mk_req ''GET'' [''inventory''] Map.empty Map.empty None) = ''GET''"
    "path (mk_req ''GET'' [''inventory''] Map.empty Map.empty None) = [''inventory'']"
    by (simp_all add: mk_req_sel)
  from empty_file_gives_db_without_items [where parse = parse0 and st = doc0 and ex = ext0
      and req = "mk_req ''GET'' [''inventory''] Map.empty Map.empty None"
      and dir = Map.empty and fid = "''f1''" and uid = "''u1''", OF a b]
  show ?thesis .
qed

section \<open>Orphan photo files\<close>

lemma referenced_iff:
  "referenced f s \<longleftrightarrow>
     (\<exists>xs. items (db s) = Some xs \<and> (\<exists>x \<in> set xs. storedFileName x = Some f))"
  by (auto simp: referenced_def list_ex_iff split: option.splits)

lemma in_set_updateD: "x \<in> set (xs[k := y]) \<Longrightarrow> x = y \<or> x \<in> set xs"
  using set_update_subset_insert [of xs k y] by auto

lemma in_set_splice1D: "x \<in> set (splice1 k xs) \<Longrightarrow> x \<in> set xs"
  by (auto simp: splice1_def dest: in_set_takeD in_set_dropD)

lemma upload_single_keeps:
  assumes "upload_single ex fid req s = (fl, s1)"
    and "\<forall>g. file_part req = Some g \<longrightarrow> filename ex fid g \<noteq> f"
  shows "photos s1 f = photos s f \<and> db s1 = db s \<and> fl \<noteq> Some f"
  using assms by (auto simp: upload_single_def split: option.splits)

lemma register_handler_keeps:
  assumes "register_handler st uid bdy fl s = (rp, s')" and "fl \<noteq> Some f"
    and "\<not> referenced f s"
  shows "photos s' f = photos s f \<and> \<not> referenced f s'"
  using assms
  by (auto simp: register_handler_def Let_def saveDb_def referenced_iff
      split: if_splits option.splits)

lemma update_handler_keeps:
  assumes "update_handler st i bdy s = (rp, s')" and "\<not> referenced f s"
  shows "photos s' f = photos s f \<and> \<not> referenced f s'"
proof (cases "findItem (db s) i")
  case (Inl e)
  with assms show ?thesis by (simp add: update_handler_def)
next
  case (Inr r)
  show ?thesis
  proof (cases r)
    case None
    with Inr assms show ?thesis by (simp add: update_handler_def)
  next
    case (Some k)
    note Some_k = this
    with Inr obtain xs where xs: "items (db s) = Some xs"
      "findIndex (\<lambda>x. item_id x = i) xs = Some k"
      by (auto simp: findItem_def split: option.splits)
    from findIndex_Some [OF xs(2)] have k: "k < length xs" by simp
    then have mem: "xs ! k \<in> set xs" by simp
    show ?thesis
    proof (cases bdy)
      case None
      with Inr Some_k assms show ?thesis by (simp add: update_handler_def)
    next
      case (Some b)
      define y where "y = (xs ! k)\<lparr>name := (if truthy (b ''name'')
                            then the (b ''name'') else name (xs ! k)),
                  description := (if truthy (b ''description'')
                            then the (b ''description'')
                            else description (xs ! k))\<rparr>"
      from assms(1) Some update_handler_known [OF xs, of st b]
      have s': "s' = saveDb st (s\<lparr>db := (db s)\<lparr>items := Some (xs[k := y])\<rparr>\<rparr>)"
        by (simp add: y_def)
      have y: "storedFileName y = storedFileName (xs ! k)"
        "photos s' = photos s" "items (db s') = Some (xs[k := y])"
        by (simp_all add: y_def s' saveDb_def)
      show ?thesis
      proof (intro conjI notI)
        show "photos s' f = photos s f" using y(2) by simp
      next
        assume "referenced f s'"
        with y(3) obtain x where x: "x \<in> set (xs[k := y])" "storedFileName x = Some f"
          by (auto simp: referenced_iff)
        from in_set_updateD [OF x(1)] x(2) y(1) mem xs(1) have "referenced f s"
          by (auto simp: referenced_iff)
        with assms(2) show False by simp
      qed
    qed
  qed
qed

lemma update_photo_handler_keeps:
  assumes "update_photo_handler st i fl s = (rp, s')" and "fl \<noteq> Some f"
    and "\<not> referenced f s"
  shows "photos s' f = photos s f \<and> \<not> referenced f s'"
proof (cases "findItem (db s) i")
  case (Inl e)
  with assms show ?thesis by (simp add: update_photo_handler_def)
next
  case (Inr r)
  show ?thesis
  proof (cases r)
    case None
    with Inr assms show ?thesis by (simp add: update_photo_handler_def)
  next
    case (Some k)
    note Some_k = this
    with Inr obtain xs where xs: "items (db s) = Some xs"
      "findIndex (\<lambda>x. item_id x = i) xs = Some k"
      by (auto simp: findItem_def split: option.splits)
    from findIndex_Some [OF xs(2)] have k: "k < length xs" by simp
    then have mem: "xs ! k \<in> set xs" by simp
    with assms(3) xs(1) have old: "storedFileName (xs ! k) \<noteq> Some f"
      by (auto simp: referenced_iff)
    show ?thesis
    proof (cases fl)
      case None
      with Inr Some_k assms show ?thesis by (simp add: update_photo_handler_def)
    next
      case (Some fname)
      with assms(2) have new: "fname \<noteq> f" by simp
      from assms(1) Inr Some_k Some xs(1)
      have s': "s' = saveDb st (s\<lparr>photos := (if truthy (storedFileName (xs ! k))
                     then fs_unlink_if_exists (the (storedFileName (xs ! k))) (photos s)
                     else photos s),
                   db := (db s)\<lparr>items := Some (xs[k :=
                     (xs ! k)\<lparr>storedFileName := Some fname,
                       photo := Some (photo_url (item_id (xs ! k)))\<rparr>])\<rparr>\<rparr>)"
        by (simp add: update_photo_handler_def Let_def)
      show ?thesis
      proof (intro conjI notI)
        show "photos s' f = photos s f"
          using old by (auto simp: s' saveDb_def fs_unlink_if_exists_eq truthy_iff)
      next
        assume "referenced f s'"
        then obtain x where x: "x \<in> set (xs[k := (xs ! k)\<lparr>storedFileName := Some fname,
                       photo := Some (photo_url (item_id (xs ! k)))\<rparr>])"
            "storedFileName x = Some f"
          by (auto simp: referenced_iff s' saveDb_def)
        from in_set_updateD [OF x(1)] x(2) new xs(1) have "referenced f s"
          by (auto simp: referenced_iff)
        with assms(3) show False by simp
      qed
    qed
  qed
qed

lemma delete_handler_keeps:
  assumes "delete_handler st i s = (rp, s')" and "\<not> referenced f s"
  shows "photos s' f = photos s f \<and> \<not> referenced f s'"
proof (cases "items (db s)")
  case None
  with assms show ?thesis by (simp add: delete_handler_def)
next
  case (Some xs)
  show ?thesis
  proof (cases "findIndex (\<lambda>x. item_id x = i) xs")
    case None
    with Some assms show ?thesis by (simp add: delete_handler_def)
  next
    case (Some k)
    from findIndex_Some [OF Some] have "k < length xs" by simp
    then have "xs ! k \<in> set xs" by simp
    with assms(2) \<open>items (db s) = Some xs\<close> have old: "storedFileName (xs ! k) \<noteq> Some f"
      by (auto simp: referenced_iff)
    from assms(1) delete_handler_known [OF \<open>items (db s) = Some xs\<close> Some, of st]
    have s': "s' = saveDb st (s\<lparr>photos := (if truthy (storedFileName (xs ! k))
                               then (photos s)(the (storedFileName (xs ! k)) := None)
                               else photos s),
                    db := (db s)\<lparr>items := Some (splice1 k xs)\<rparr>\<rparr>)"
      by simp
    show ?thesis
    proof (intro conjI notI)
      show "photos s' f = photos s f"
        using old by (auto simp: s' saveDb_def truthy_iff)
    next
      assume "referenced f s'"
      then obtain x where "x \<in> set (splice1 k xs)" "storedFileName x = Some f"
        by (auto simp: referenced_iff s' saveDb_def)
      with \<open>items (db s) = Some xs\<close> have "referenced f s"
        by (auto simp: referenced_iff dest: in_set_splice1D)
      with assms(2) show False by simp
    qed
  qed
qed

lemma readers_keep_state:
  "snd (inventory_handler s) = s"
  "snd (inventory_id_handler i s) = s"
  "snd (photo_handler i s) = s"
  "snd (search_post_handler bdy s) = s"
  "snd (search_get_handler req s) = s"
  by (auto simp: inventory_handler_def inventory_id_handler_def photo_handler_def
      search_post_handler_def search_get_handler_def Let_def
      split: option.splits sum.splits)

lemma guarded_cases:
  "guarded ms req s k = k \<or> (\<exists>r. guarded ms req s k = (Sent r, s))"
  by (simp add: guarded_def split: option.splits)

lemma guarded_keeps:
  assumes "photos (snd k) f = photos s f \<and> \<not> referenced f (snd k)" and "\<not> referenced f s"
  shows "photos (snd (guarded ms req s k)) f = photos s f
       \<and> \<not> referenced f (snd (guarded ms req s k))"
  using guarded_cases [of ms req s k] assms by auto

lemma register_route_keeps:
  assumes "\<not> referenced f s" and "\<forall>g. file_part req = Some g \<longrightarrow> filename ex fid g \<noteq> f"
  shows "photos (snd (case upload_single ex fid req s of
                        (fl, s1) \<Rightarrow> register_handler st uid bdy fl s1)) f = photos s f
       \<and> \<not> referenced f (snd (case upload_single ex fid req s of
                        (fl, s1) \<Rightarrow> register_handler st uid bdy fl s1))"
proof -
  obtain fl s1 where up: "upload_single ex fid req s = (fl, s1)"
    by (cases "upload_single ex fid req s")
  obtain rp s' where h: "register_handler st uid bdy fl s1 = (rp, s')"
    by (cases "register_handler st uid bdy fl s1")
  from upload_single_keeps [OF up assms(2)]
  have u: "photos s1 f = photos s f" "db s1 = db s" "fl \<noteq> Some f"
    by simp_all
  from assms(1) u(2) have "\<not> referenced f s1"
    by (simp add: referenced_def)
  from register_handler_keeps [OF h u(3) this] u(1) up h show ?thesis
    by simp
qed

lemma update_photo_route_keeps:
  assumes "\<not> referenced f s" and "\<forall>g. file_part req = Some g \<longrightarrow> filename ex fid g \<noteq> f"
  shows "photos (snd (case upload_single ex fid req s of
                        (fl, s1) \<Rightarrow> update_photo_handler st i fl s1)) f = photos s f
       \<and> \<not> referenced f (snd (case upload_single ex fid req s of
                        (fl, s1) \<Rightarrow> update_photo_handler st i fl s1))"
proof -
  obtain fl s1 where up: "upload_single ex fid req s = (fl, s1)"
    by (cases "upload_single ex fid req s")
  obtain rp s' where h: "update_photo_handler st i fl s1 = (rp, s')"
    by (cases "update_photo_handler st i fl s1")
  from upload_single_keeps [OF up assms(2)]
  have u: "photos s1 f = photos s f" "db s1 = db s" "fl \<noteq> Some f"
    by simp_all
  from assms(1) u(2) have "\<not> referenced f s1"
    by (simp add: referenced_def)
  from update_photo_handler_keeps [OF h u(3) this] u(1) up h show ?thesis
    by simp
qed

lemma update_route_keeps:
  assumes "\<not> referenced f s"
  shows "photos (snd (update_handler st i bdy s)) f = photos s f
       \<and> \<not> referenced f (snd (update_handler st i bdy s))"
  using update_handler_keeps [OF _ assms, of st i bdy "fst (update_handler st i bdy s)"
      "snd (update_handler st i bdy s)"]
  by simp

lemma delete_route_keeps:
  assumes "\<not> referenced f s"
  shows "photos (snd (delete_handler st i s)) f = photos s f
       \<and> \<not> referenced f (snd (delete_handler st i s))"
  using delete_handler_keeps [OF _ assms, of st i "fst (delete_handler st i s)"
      "snd (delete_handler st i s)"]
  by simp

lemma app_keeps:
  assumes "\<not> referenced f s" and "\<forall>g. file_part req = Some g \<longrightarrow> filename ex fid g \<noteq> f"
  shows "photos (snd (app st ex fid uid req s)) f = photos s f
       \<and> \<not> referenced f (snd (app st ex fid uid req s))"
  unfolding app_def
  using assms(1)
    guarded_keeps [OF register_route_keeps [OF assms, of st uid "multer_body req"] assms(1)]
    guarded_keeps [OF update_photo_route_keeps [OF assms, of st] assms(1)]
    guarded_keeps [OF update_route_keeps [OF assms(1), of st _ "parsed_body req"] assms(1)]
    guarded_keeps [OF delete_route_keeps [OF assms(1), of st] assms(1)]
    guarded_keeps [of "inventory_handler s" f s, OF _ assms(1)]
    guarded_keeps [of "inventory_id_handler _ s" f s, OF _ assms(1)]
    guarded_keeps [of "photo_handler _ s" f s, OF _ assms(1)]
    guarded_keeps [of "search_post_handler (parsed_body req) s" f s, OF _ assms(1)]
    guarded_keeps [of "search_get_handler req s" f s, OF _ assms(1)]
  by (simp add: readers_keep_state)

lemma run_keeps:
  assumes "\<not> referenced f s" and "\<forall>e \<in> set evs. upload_name ex e \<noteq> Some f"
  shows "photos (run st ex evs s) f = photos s f \<and> \<not> referenced f (run st ex evs s)"
  using assms
proof (induction evs arbitrary: s)
  case Nil
  then show ?case by simp
next
  case (Cons e evs)
  from Cons.prems(2) have "\<forall>g. file_part (ev_req e) = Some g \<longrightarrow> filename ex (ev_fid e) g \<noteq> f"
    by (auto simp: upload_name_def)
  from app_keeps [OF Cons.prems(1) this, of st "ev_uid e"]
  have step: "photos (snd (app st ex (ev_fid e) (ev_uid e) (ev_req e) s)) f = photos s f"
    "\<not> referenced f (snd (app st ex (ev_fid e) (ev_uid e) (ev_req e) s))"
    by simp_all
  from Cons.IH [OF step(2)] Cons.prems(2) step(1) show ?case
    by simp
qed

text \<open>
  Claim C10. POST /register with an uploaded photo and an empty or absent inventory_name
  answers 400 and leaves \<^verbatim>\<open>db\<close> and the JSON file as they were, but the photo directory
  has gained the uploaded file, written by \<^verbatim>\<open>upload.single\<close> before the handler ran. When
  no item names that file (its name comes from a new uuid), the file is an orphan, and it
  stays one with the same bytes after any sequence of later requests none of which uploads
  a file under the same name: no handler removes a file that no item names.
\<close>

theorem rejected_register_leaves_orphan_photo:
  assumes "req_method req = ''POST''" and "path req = [''register'']"
    and "\<not> truthy (body_fields req ''inventory_name'')" and "file_part req = Some g"
  shows "\<exists>s'. app st ex fid uid req s
            = (Sent (send_json 400 (JObj [(''error'', JStr ''inventory_name is required'')])), s')
          \<and> db s' = db s \<and> db_file s' = db_file s
          \<and> photos s' = (photos s)(filename ex fid g \<mapsto> content g)
          \<and> (\<not> referenced (filename ex fid g) s \<longrightarrow>
                orphan (filename ex fid g) s'
              \<and> (\<forall>evs. (\<forall>e \<in> set evs. upload_name ex e \<noteq> Some (filename ex fid g)) \<longrightarrow>
                    photos (run st ex evs s') (filename ex fid g) = Some (content g)
                  \<and> orphan (filename ex fid g) (run st ex evs s')))"
proof -
  let ?f = "filename ex fid g"
  define s' where "s' = s\<lparr>photos := (photos s)(?f \<mapsto> content g)\<rparr>"
  from assms(4) have up: "upload_single ex fid req s = (Some ?f, s')"
    by (simp add: upload_single_def s'_def)
  from assms(3) have inv: "\<not> truthy ((body_fields req) ''inventory_name'')"
    by simp
  from assms(1,2) up file_part_multer_body [OF assms(4)]
    register_handler_invalid [where b = "body_fields req", OF inv, of st uid "Some ?f" s']
  have run: "app st ex fid uid req s
      = (Sent (send_json 400 (JObj [(''error'', JStr ''inventory_name is required'')])), s')"
    by (simp add: app_register)
  have frame: "db s' = db s" "db_file s' = db_file s"
    "photos s' = (photos s)(?f \<mapsto> content g)"
    by (simp_all add: s'_def)
  have later: "\<not> referenced ?f s \<longrightarrow>
                orphan ?f s'
              \<and> (\<forall>evs. (\<forall>e \<in> set evs. upload_name ex e \<noteq> Some ?f) \<longrightarrow>
                    photos (run st ex evs s') ?f = Some (content g)
                  \<and> orphan ?f (run st ex evs s'))"
  proof (intro impI conjI allI)
    assume "\<not> referenced ?f s"
    with frame(1) have nr: "\<not> referenced ?f s'"
      by (simp add: referenced_def)
    with frame(3) show "orphan ?f s'"
      by (simp add: orphan_def)
    fix evs
    assume ev: "\<forall>e \<in> set evs. upload_name ex e \<noteq> Some ?f"
    from run_keeps [OF nr ev, of st] frame(3)
    show "photos (run st ex evs s') ?f = Some (content g)"
      and "orphan ?f (run st ex evs s')"
      by (simp_all add: orphan_def)
  qed
  from run frame later show ?thesis
    by blast
qed

theorem rejected_register_leaves_orphan_photo_witness:
  "\<exists>s'. app doc0 ext0 ''f1'' ''u1''
          (mk_req ''POST'' [''register''] [''description'' \<mapsto> ''m5''] Map.empty (Some pic1)) state1
        = (Sent (send_json 400 (JObj [(''error'', JStr ''inventory_name is required'')])), s')
      \<and> db s' = db state1
      \<and> photos s' ''f1.jpg'' = Some [7, 8]
      \<and> orphan ''f1.jpg'' s'
      \<and> photos (run doc0 ext0 [ev_delete] s') ''f1.jpg'' = Some [7, 8]
      \<and> orphan ''f1.jpg'' (run doc0 ext0 [ev_delete] s')"
proof -
  let ?r = "mk_req ''POST'' [''register''] [''description'' \<mapsto> ''m5''] Map.empty (Some pic1)"
  have h: "req_method ?r = ''POST''" "path ?r = [''register'']"
    "\<not> truthy (body_fields ?r ''inventory_name'')" "file_part ?r = Some pic1"
    by (simp_all add: mk_req_sel)
  have n: "filename ext0 ''f1'' pic1 = ''f1.jpg''" "content pic1 = [7, 8]"
    by (simp_all add: filename_def ext0_def pic1_def)
  have nr: "\<not> referenced ''f1.jpg'' state1"
    by (simp add: referenced_def state1_def item1_def)
  have ev: "\<forall>e \<in> set [ev_delete]. upload_name ext0 e \<noteq> Some ''f1.jpg''"
    by (simp add: upload_name_def ev_delete_def mk_req_sel)
  from rejected_register_leaves_orphan_photo [OF h, of doc0 ext0 "''f1''" "''u1''" state1]
  obtain s' where B: "app doc0 ext0 ''f1'' ''u1'' ?r state1
            = (Sent (send_json 400 (JObj [(''error'', JStr ''inventory_name is required'')])), s')
          \<and> db s' = db state1 \<and> db_file s' = db_file state1
          \<and> photos s' = (photos state1)(filename ext0 ''f1'' pic1 \<mapsto> content pic1)
          \<and> (\<not> referenced (filename ext0 ''f1'' pic1) state1 \<longrightarrow>
                orphan (filename ext0 ''f1'' pic1) s'
              \<and> (\<forall>evs. (\<forall>e \<in> set evs. upload_name ext0 e \<noteq> Some (filename ext0 ''f1'' pic1))
                    \<longrightarrow>
                    photos (run doc0 ext0 evs s') (filename ext0 ''f1'' pic1) = Some (content pic1)
                  \<and> orphan (filename ext0 ''f1'' pic1) (run doc0 ext0 evs s')))"
    by (elim exE)
  from B n have 1: "app doc0 ext0 ''f1'' ''u1'' ?r state1
      = (Sent (send_json 400 (JObj [(''error'', JStr ''inventory_name is required'')])), s')"
    "db s' = db state1" "photos s' ''f1.jpg'' = Some [7, 8]"
    by simp_all
  from B n nr have 2: "orphan ''f1.jpg'' s'"
    and 3: "\<forall>evs. (\<forall>e \<in> set evs. upload_name ext0 e \<noteq> Some ''f1.jpg'') \<longrightarrow>
                    photos (run doc0 ext0 evs s') ''f1.jpg'' = Some [7, 8]
                  \<and> orphan ''f1.jpg'' (run doc0 ext0 evs s')"
    by simp_all
  from 3 ev have "photos (run doc0 ext0 [ev_delete] s') ''f1.jpg'' = Some [7, 8]
                  \<and> orphan ''f1.jpg'' (run doc0 ext0 [ev_delete] s')"
    by blast
  with 1 2 show ?thesis by blast
qed

end
